theory Spec2Isabelle
  imports Complex_Main
begin

section \<open>Domain: status, descriptor, builder, model record\<close>

text \<open>
  \<^verbatim>\<open>enum ModelStatus\<close> of \<^verbatim>\<open>domain/value-objects/model-status.ts\<close>. The string
  values of the enum are what the registry document stores; the embedding keeps the
  enum itself.
\<close>

datatype ModelStatus =
  NOT_DOWNLOADED | DOWNLOADING | DOWNLOADED | LOADING | LOADED | ERROR

text \<open>The union type of \<^verbatim>\<open>ModelInfo.modelType\<close>.\<close>

datatype ModelType = TextGeneration | Text2TextGeneration | FeatureExtraction

text \<open>
  \<^verbatim>\<open>interface ModelInfo\<close>. \<^verbatim>\<open>sizeGB\<close> is optional in the interface. \<^verbatim>\<open>description\<close>
  is declared required, but \<^verbatim>\<open>build()\<close> does not check it and casts the partial object,
  so at run time it can be undefined: it is an option here. Numbers are JavaScript
  doubles; they are embedded as reals (NaN and the infinities are left out).
\<close>

record ModelInfo =
  name :: string
  huggingFaceId :: string
  version :: string
  description :: "string option"
  localPath :: string
  modelType :: ModelType
  sizeGB :: "real option"
  requiredFiles :: "string list"

text \<open>
  \<^verbatim>\<open>class ModelInfoBuilder\<close>: its private field is a \<^verbatim>\<open>Partial<ModelInfo>\<close>, every
  key of which may be absent. \<^verbatim>\<open>None\<close> is an absent (or undefined) key.
\<close>

record ModelInfoBuilder =
  b_name :: "string option"
  b_huggingFaceId :: "string option"
  b_version :: "string option"
  b_description :: "string option"
  b_localPath :: "string option"
  b_modelType :: "ModelType option"
  b_sizeGB :: "real option"
  b_requiredFiles :: "string list option"

definition newModelInfoBuilder :: ModelInfoBuilder where
  "newModelInfoBuilder =
     \<lparr>b_name = None, b_huggingFaceId = None, b_version = None, b_description = None,
      b_localPath = None, b_modelType = None, b_sizeGB = None, b_requiredFiles = None\<rparr>"

definition setName :: "string \<Rightarrow> ModelInfoBuilder \<Rightarrow> ModelInfoBuilder" where
  "setName n b = b\<lparr>b_name := Some n\<rparr>"

definition setHuggingFaceId :: "string \<Rightarrow> ModelInfoBuilder \<Rightarrow> ModelInfoBuilder" where
  "setHuggingFaceId i b = b\<lparr>b_huggingFaceId := Some i\<rparr>"

definition setVersion :: "string \<Rightarrow> ModelInfoBuilder \<Rightarrow> ModelInfoBuilder" where
  "setVersion v b = b\<lparr>b_version := Some v\<rparr>"

text \<open>
  \<^verbatim>\<open>setDescription\<close> and \<^verbatim>\<open>setSizeGB\<close> store whatever they are given. The repository
  calls them with values read from the document, which are undefined when the stored
  object has no such key, so their argument is an option.
\<close>

definition setDescription :: "string option \<Rightarrow> ModelInfoBuilder \<Rightarrow> ModelInfoBuilder" where
  "setDescription d b = b\<lparr>b_description := d\<rparr>"

definition setLocalPath :: "string \<Rightarrow> ModelInfoBuilder \<Rightarrow> ModelInfoBuilder" where
  "setLocalPath p b = b\<lparr>b_localPath := Some p\<rparr>"

definition setModelType :: "ModelType \<Rightarrow> ModelInfoBuilder \<Rightarrow> ModelInfoBuilder" where
  "setModelType t b = b\<lparr>b_modelType := Some t\<rparr>"

definition setSizeGB :: "real option \<Rightarrow> ModelInfoBuilder \<Rightarrow> ModelInfoBuilder" where
  "setSizeGB s b = b\<lparr>b_sizeGB := s\<rparr>"

definition setRequiredFiles :: "string list \<Rightarrow> ModelInfoBuilder \<Rightarrow> ModelInfoBuilder" where
  "setRequiredFiles fs b = b\<lparr>b_requiredFiles := Some fs\<rparr>"

text \<open>
  JavaScript's \<^verbatim>\<open>!x\<close> on an optional string: true when the key is absent and when
  the string is empty. On an optional array or an optional member of the
  \<^verbatim>\<open>modelType\<close> union it is true only when the key is absent: an empty array is truthy.
\<close>

definition falsy_string :: "string option \<Rightarrow> bool" where
  "falsy_string s = (s = None \<or> s = Some [])"

definition falsy_object :: "'a option \<Rightarrow> bool" where
  "falsy_object x = (x = None)"

text \<open>
  \<^verbatim>\<open>ModelInfoBuilder.build\<close>: one test over six fields, one \<^verbatim>\<open>throw\<close>
  (\<^verbatim>\<open>Inl\<close> carries the message of the thrown \<^verbatim>\<open>Error\<close>), otherwise the partial object
  itself is returned.
\<close>

definition build :: "ModelInfoBuilder \<Rightarrow> string + ModelInfo" where
  "build b =
     (if falsy_string (b_name b) \<or>
         falsy_string (b_huggingFaceId b) \<or>
         falsy_string (b_version b) \<or>
         falsy_string (b_localPath b) \<or>
         falsy_object (b_modelType b) \<or>
         falsy_object (b_requiredFiles b)
      then Inl ''Missing required ModelInfo fields''
      else Inr \<lparr>name = the (b_name b), huggingFaceId = the (b_huggingFaceId b),
                version = the (b_version b), description = b_description b,
                localPath = the (b_localPath b), modelType = the (b_modelType b),
                sizeGB = b_sizeGB b, requiredFiles = the (b_requiredFiles b)\<rparr>)"

text \<open>
  \<^verbatim>\<open>class Model\<close> (\<^verbatim>\<open>domain/entities/model.ts\<close>). \<^verbatim>\<open>_loadedAt\<close> is a \<^verbatim>\<open>Date\<close>;
  it is embedded as the clock reading (milliseconds) that \<^verbatim>\<open>new Date()\<close> took, which
  \<^verbatim>\<open>markLoaded\<close> receives as its first argument.
\<close>

record Model =
  info :: ModelInfo
  status :: ModelStatus
  errorMessage :: "string option"
  loadedAt :: "nat option"

definition newModel :: "ModelInfo \<Rightarrow> Model" where
  "newModel i = \<lparr>info = i, status = NOT_DOWNLOADED, errorMessage = None, loadedAt = None\<rparr>"

definition isReady :: "Model \<Rightarrow> bool" where
  "isReady m = (status m = LOADED)"

definition markDownloading :: "Model \<Rightarrow> Model" where
  "markDownloading m = m\<lparr>status := DOWNLOADING, errorMessage := None\<rparr>"

definition markDownloaded :: "Model \<Rightarrow> Model" where
  "markDownloaded m = m\<lparr>status := DOWNLOADED, errorMessage := None\<rparr>"

definition markLoading :: "Model \<Rightarrow> Model" where
  "markLoading m = m\<lparr>status := LOADING, errorMessage := None\<rparr>"

definition markLoaded :: "nat \<Rightarrow> Model \<Rightarrow> Model" where
  "markLoaded now m = m\<lparr>status := LOADED, loadedAt := Some now, errorMessage := None\<rparr>"

definition markError :: "string \<Rightarrow> Model \<Rightarrow> Model" where
  "markError e m = m\<lparr>status := ERROR, errorMessage := Some e\<rparr>"

text \<open>
  What \<^verbatim>\<open>Model.toJSON\<close> returns, which is what \<^verbatim>\<open>JSON.stringify\<close> writes for a
  model and what \<^verbatim>\<open>JSON.parse\<close> gives back (an undefined key is left out by
  \<^verbatim>\<open>stringify\<close> and read as undefined again).
\<close>

record ModelJSON =
  j_info :: ModelInfo
  j_status :: ModelStatus
  j_errorMessage :: "string option"
  j_loadedAt :: "nat option"
  j_isReady :: bool

definition toJSON :: "Model \<Rightarrow> ModelJSON" where
  "toJSON m =
     \<lparr>j_info = info m, j_status = status m, j_errorMessage = errorMessage m,
      j_loadedAt = loadedAt m, j_isReady = isReady m\<rparr>"

text \<open>The transition methods of \<^verbatim>\<open>Model\<close>, as data, and a run of them on a record.\<close>

datatype Transition =
  MarkDownloading | MarkDownloaded | MarkLoading | MarkLoaded nat | MarkError string

fun transition :: "Transition \<Rightarrow> Model \<Rightarrow> Model" where
  "transition MarkDownloading m = markDownloading m"
| "transition MarkDownloaded m = markDownloaded m"
| "transition MarkLoading m = markLoading m"
| "transition (MarkLoaded now) m = markLoaded now m"
| "transition (MarkError e) m = markError e m"

fun transitions :: "Transition list \<Rightarrow> Model \<Rightarrow> Model" where
  "transitions [] m = m"
| "transitions (t # ts) m = transitions ts (transition t m)"

text \<open>A descriptor used in the closed examples below: the catalogue's first entry.\<close>

definition gpt2_small :: ModelInfo where
  "gpt2_small =
     \<lparr>name = ''gpt2-small'', huggingFaceId = ''gpt2'', version = ''1.0.0'',
      description = Some ''GPT-2 Small - Fast and lightweight text generation model'',
      localPath = ''models/gpt2-small'', modelType = TextGeneration, sizeGB = Some 0.5,
      requiredFiles = [''config.json'', ''pytorch_model.bin'', ''tokenizer.json'',
                       ''tokenizer_config.json'']\<rparr>"

section \<open>The catalogue\<close>

text \<open>
  \<^verbatim>\<open>interface ModelRegistryEntry\<close> and the table of \<^verbatim>\<open>ModelRegistry.initializeModels\<close>.
  The local path of an entry is \<^verbatim>\<open>join(modelsBasePath, config.name)\<close>, which depends on
  the process environment and on the platform's path rules: it is the parameter
  \<open>localPathOf\<close>. \<^verbatim>\<open>ModelRegistry.models\<close> is mutable (\<^verbatim>\<open>addCustomModel\<close>), so the
  catalogue is part of the state below and the theorems hold for any content.
\<close>

record ModelRegistryEntry =
  e_info :: ModelInfo
  tags :: "string list"
  popularity :: int
  verified :: bool

record ModelConfig =
  c_name :: string
  c_huggingFaceId :: string
  c_description :: string
  c_sizeGB :: real
  c_tags :: "string list"
  c_popularity :: int
  c_verified :: bool

definition modelConfigs :: "ModelConfig list" where
  "modelConfigs =
    [\<lparr>c_name = ''gpt2-small'', c_huggingFaceId = ''gpt2'',
      c_description = ''GPT-2 Small - Fast and lightweight text generation model'',
      c_sizeGB = 0.5, c_tags = [''text-generation'', ''fast'', ''lightweight''],
      c_popularity = 95, c_verified = True\<rparr>,
     \<lparr>c_name = ''gpt2-medium'', c_huggingFaceId = ''gpt2-medium'',
      c_description = ''GPT-2 Medium - Balanced performance and quality'',
      c_sizeGB = 1.5, c_tags = [''text-generation'', ''balanced''],
      c_popularity = 85, c_verified = True\<rparr>,
     \<lparr>c_name = ''distilgpt2'', c_huggingFaceId = ''distilgpt2'',
      c_description = ''DistilGPT-2 - Distilled version of GPT-2, faster inference'',
      c_sizeGB = 0.3, c_tags = [''text-generation'', ''distilled'', ''fast''],
      c_popularity = 75, c_verified = True\<rparr>,
     \<lparr>c_name = ''dialogpt-medium'', c_huggingFaceId = ''microsoft/DialoGPT-medium'',
      c_description = ''DialoGPT Medium - Conversational AI model'',
      c_sizeGB = 1.2, c_tags = [''conversation'', ''dialog'', ''chat''],
      c_popularity = 70, c_verified = True\<rparr>,
     \<lparr>c_name = ''t5-small'', c_huggingFaceId = ''t5-small'',
      c_description = ''T5 Small - Text-to-text transfer transformer'',
      c_sizeGB = 0.2, c_tags = [''text2text-generation'', ''summarization'', ''translation''],
      c_popularity = 80, c_verified = True\<rparr>,
     \<lparr>c_name = ''flan-t5-small'', c_huggingFaceId = ''google/flan-t5-small'',
      c_description = ''FLAN-T5 Small - Instruction-tuned T5 model'',
      c_sizeGB = 0.3,
      c_tags = [''text2text-generation'', ''instruction-following'', ''flan''],
      c_popularity = 85, c_verified = True\<rparr>,
     \<lparr>c_name = ''llama-7b-chat'', c_huggingFaceId = ''microsoft/DialoGPT-large'',
      c_description = ''Llama 7B Chat - Large language model optimized for conversation'',
      c_sizeGB = 7.0, c_tags = [''text-generation'', ''large'', ''chat'', ''llama''],
      c_popularity = 90, c_verified = True\<rparr>]"

text \<open>
  The loop of \<^verbatim>\<open>initializeModels\<close>: one builder chain and one \<^verbatim>\<open>models.set\<close> per
  configuration. A \<^verbatim>\<open>build()\<close> that throws ends the constructor (\<^verbatim>\<open>Inl\<close>).
\<close>

fun initializeModels_loop ::
  "(string \<Rightarrow> string) \<Rightarrow> ModelConfig list \<Rightarrow> (string \<rightharpoonup> ModelRegistryEntry) \<Rightarrow>
   string + (string \<rightharpoonup> ModelRegistryEntry)" where
  "initializeModels_loop localPathOf [] models = Inr models"
| "initializeModels_loop localPathOf (config # configs) models =
     (let b = newModelInfoBuilder;
          b = setName (c_name config) b;
          b = setHuggingFaceId (c_huggingFaceId config) b;
          b = setVersion ''1.0.0'' b;
          b = setDescription (Some (c_description config)) b;
          b = setLocalPath (localPathOf (c_name config)) b;
          b = setModelType (if ''text2text-generation'' \<in> set (c_tags config)
                            then Text2TextGeneration else TextGeneration) b;
          b = setSizeGB (Some (c_sizeGB config)) b;
          b = setRequiredFiles [''config.json'', ''pytorch_model.bin'', ''tokenizer.json'',
                                ''tokenizer_config.json''] b
      in case build b of
           Inl e \<Rightarrow> Inl e
         | Inr modelInfo \<Rightarrow>
             initializeModels_loop localPathOf configs
               (models(c_name config \<mapsto>
                  \<lparr>e_info = modelInfo, tags = c_tags config,
                   popularity = c_popularity config, verified = c_verified config\<rparr>)))"

definition initializeModels ::
  "(string \<Rightarrow> string) \<Rightarrow> string + (string \<rightharpoonup> ModelRegistryEntry)" where
  "initializeModels localPathOf = initializeModels_loop localPathOf modelConfigs Map.empty"

section \<open>State of the process and its environment\<close>

text \<open>
  A \<^verbatim>\<open>Pipeline\<close> of the transformers library, identified by the arguments that
  \<^verbatim>\<open>pipeline(task, model, {cache_dir})\<close> created it from.
\<close>

record Pipeline =
  pipe_task :: ModelType
  pipe_model :: string
  pipe_cache_dir :: string

text \<open>
  A JavaScript \<^verbatim>\<open>Map\<close> keeps its entries in insertion order: \<^verbatim>\<open>set\<close> on a key that
  is present replaces the value where it stands, \<^verbatim>\<open>set\<close> on a new key appends.
\<close>

fun map_set :: "'k \<Rightarrow> 'v \<Rightarrow> ('k \<times> 'v) list \<Rightarrow> ('k \<times> 'v) list" where
  "map_set k v [] = [(k, v)]"
| "map_set k v (e # es) = (if fst e = k then (k, v) # es else e # map_set k v es)"

definition map_has :: "'k \<Rightarrow> ('k \<times> 'v) list \<Rightarrow> bool" where
  "map_has k es = (k \<in> set (map fst es))"

definition map_delete :: "'k \<Rightarrow> ('k \<times> 'v) list \<Rightarrow> ('k \<times> 'v) list" where
  "map_delete k es = filter (\<lambda>e. fst e \<noteq> k) es"

text \<open>
  The calls that reach the two collaborators of \<^verbatim>\<open>ModelService\<close>, the downloader and
  the loader, in the order they are made. The source keeps no such log; it is recorded
  here so that "is not invoked" can be stated. The loader's methods record
  themselves; a call of the downloader is recorded where the service makes it.
\<close>

datatype Call =
  Download string | LoadModel string | UnloadModel string | Generate | IsModelLoaded string

text \<open>
  The mutable state of the process and of its disk:
  \<^item> \<open>registry_file\<close>: the object that \<^verbatim>\<open>loadRegistry\<close> reads from \<^verbatim>\<open>registry.json\<close>
    (a file that is missing or does not parse reads as the empty object, as the
    \<^verbatim>\<open>catch\<close> of \<^verbatim>\<open>loadRegistry\<close> has it; keys inherited from \<^verbatim>\<open>Object.prototype\<close> and
    reads that fail only once are not modelled);
  \<^item> \<open>write_faults\<close>: the outcomes of the coming calls of \<^verbatim>\<open>fs.writeFile\<close>, one per
    call: \<open>Some e\<close> throws an \<^verbatim>\<open>Error\<close> with message \<open>e\<close> and leaves the file as it was,
    \<open>None\<close> writes. When the list is used up every write succeeds;
  \<^item> \<open>models\<close>: \<^verbatim>\<open>ModelRegistry.models\<close>;
  \<^item> \<open>loadedModels\<close>: \<^verbatim>\<open>TransformersLoader.loadedModels\<close>;
  \<^item> \<open>currentModel\<close>: \<^verbatim>\<open>ModelService.currentModel\<close>. The service never mutates a
    \<^verbatim>\<open>Model\<close> after storing it there, so the field holds the value;
  \<^item> \<open>calls\<close>: the log of collaborator calls.
  Console and logger output is left out.
\<close>

record World =
  registry_file :: "string \<rightharpoonup> ModelJSON"
  write_faults :: "string option list"
  models :: "string \<rightharpoonup> ModelRegistryEntry"
  loadedModels :: "(string \<times> Pipeline) list"
  currentModel :: "Model option"
  calls :: "Call list"

text \<open>The options object that \<^verbatim>\<open>generate\<close> hands to the pipeline.\<close>

record PipelineOptions =
  max_new_tokens :: real
  o_temperature :: real
  top_p :: real
  do_sample :: bool
  repetition_penalty :: real

text \<open>
  What calling the pipeline results in: it throws (\<open>Some m\<close>: an \<^verbatim>\<open>Error\<close> with
  message \<open>m\<close>; \<open>None\<close>: a value that is no \<^verbatim>\<open>Error\<close>), or it returns a result from
  which the three-way format handling of \<^verbatim>\<open>generate\<close> extracts the text given.
\<close>

datatype PipelineOutcome = PipelineThrows "string option" | PipelineText string

text \<open>
  What the outside world answers during one call: the clock, the file system, the
  network and the inference library. Every theorem below holds for every environment.
  \<^item> \<open>clock\<close>: \<^verbatim>\<open>Date.now()\<close> when the call starts; \<open>elapsed\<close>: the time the pipeline
    takes;
  \<^item> \<open>mkdir_ok dir\<close>: \<^verbatim>\<open>fs.mkdir(dir, {recursive: true})\<close> succeeds;
  \<^item> \<open>downloadFile_ok repo path\<close>: \<^verbatim>\<open>downloadFile\<close> of that file succeeds;
  \<^item> \<open>access_ok dir file\<close>: \<^verbatim>\<open>fs.access(join(dir, file))\<close> succeeds after the downloads;
  \<^item> \<open>pipeline_ok task model\<close>: \<^verbatim>\<open>pipeline(task, model, ...)\<close> returns a pipeline;
  \<^item> \<open>run_pipeline\<close>: the outcome of calling a pipeline on a prompt.
\<close>

record Env =
  clock :: nat
  elapsed :: nat
  mkdir_ok :: "string \<Rightarrow> bool"
  downloadFile_ok :: "string \<Rightarrow> string \<Rightarrow> bool"
  access_ok :: "string \<Rightarrow> string \<Rightarrow> bool"
  pipeline_ok :: "ModelType \<Rightarrow> string \<Rightarrow> bool"
  run_pipeline :: "Pipeline \<Rightarrow> string \<Rightarrow> PipelineOptions \<Rightarrow> PipelineOutcome"

definition record_call :: "Call \<Rightarrow> World \<Rightarrow> World" where
  "record_call c w = w\<lparr>calls := calls w @ [c]\<rparr>"

section \<open>FileModelRepository\<close>

text \<open>
  \<^verbatim>\<open>saveRegistry\<close>: one \<^verbatim>\<open>fs.writeFile\<close> of the whole document. The first component
  of the result is the message of the error thrown, if one is.
\<close>

definition saveRegistry :: "(string \<rightharpoonup> ModelJSON) \<Rightarrow> World \<Rightarrow> string option \<times> World" where
  "saveRegistry registry w =
     (case write_faults w of
        [] \<Rightarrow> (None, w\<lparr>registry_file := registry\<rparr>)
      | None # faults \<Rightarrow> (None, w\<lparr>registry_file := registry, write_faults := faults\<rparr>)
      | Some e # faults \<Rightarrow> (Some e, w\<lparr>write_faults := faults\<rparr>))"

text \<open>
  \<^verbatim>\<open>saveModel\<close>: read the document, set the key of the model's name to its
  \<^verbatim>\<open>toJSON()\<close>, write the document; an error is logged and thrown again.
\<close>

definition saveModel :: "Model \<Rightarrow> World \<Rightarrow> string option \<times> World" where
  "saveModel model w =
     (let registry = registry_file w;
          registry = registry(name (info model) \<mapsto> toJSON model)
      in saveRegistry registry w)"

definition getKnownModel :: "string \<Rightarrow> World \<Rightarrow> Model option" where
  "getKnownModel n w =
     (case models w n of
        None \<Rightarrow> None
      | Some registryEntry \<Rightarrow> Some (newModel (e_info registryEntry)))"

text \<open>
  \<^verbatim>\<open>getModel\<close>. With no entry in the document, a model of the catalogue is created,
  saved and returned. Otherwise the descriptor is rebuilt through the builder and the
  status restored by the \<^verbatim>\<open>switch\<close>, which has the three cases "downloaded", "loaded"
  and "error" and no default. Whatever is thrown on the way (by \<^verbatim>\<open>build()\<close>, by the
  save) is caught and \<^verbatim>\<open>null\<close> is returned.
\<close>

definition getModel :: "Env \<Rightarrow> string \<Rightarrow> World \<Rightarrow> Model option \<times> World" where
  "getModel env n w =
     (case registry_file w n of
        None \<Rightarrow>
          (case getKnownModel n w of
             Some knownModel \<Rightarrow>
               (case saveModel knownModel w of
                  (None, w) \<Rightarrow> (Some knownModel, w)
                | (Some e, w) \<Rightarrow> (None, w))
           | None \<Rightarrow> (None, w))
      | Some modelData \<Rightarrow>
          (let b = newModelInfoBuilder;
               b = setName (name (j_info modelData)) b;
               b = setHuggingFaceId (huggingFaceId (j_info modelData)) b;
               b = setVersion (version (j_info modelData)) b;
               b = setDescription (description (j_info modelData)) b;
               b = setLocalPath (localPath (j_info modelData)) b;
               b = setModelType (modelType (j_info modelData)) b;
               b = setSizeGB (sizeGB (j_info modelData)) b;
               b = setRequiredFiles (requiredFiles (j_info modelData)) b
           in case build b of
                Inl e \<Rightarrow> (None, w)
              | Inr modelInfo \<Rightarrow>
                  (let model = newModel modelInfo;
                       model =
                         (case j_status modelData of
                            DOWNLOADED \<Rightarrow> markDownloaded model
                          | LOADED \<Rightarrow> markLoaded (clock env) model
                          | ERROR \<Rightarrow>
                              markError
                                (case j_errorMessage modelData of
                                   None \<Rightarrow> ''Unknown error''
                                 | Some e \<Rightarrow> if e = [] then ''Unknown error'' else e)
                                model
                          | _ \<Rightarrow> model)
                   in (Some model, w))))"

section \<open>HuggingFaceDownloader\<close>

text \<open>
  The loop of \<^verbatim>\<open>download\<close> over the required files: a file that downloads counts and
  reports \<^verbatim>\<open>(completedFiles / totalFiles) * 100\<close>; a file that fails is logged and
  skipped. The last argument collects the values given to \<^verbatim>\<open>onProgress\<close>.
\<close>

fun download_loop ::
  "Env \<Rightarrow> ModelInfo \<Rightarrow> string list \<Rightarrow> nat \<Rightarrow> real list \<Rightarrow> nat \<times> real list" where
  "download_loop env modelInfo [] completedFiles reported = (completedFiles, reported)"
| "download_loop env modelInfo (fileName # fileNames) completedFiles reported =
     (if downloadFile_ok env (huggingFaceId modelInfo) fileName
      then download_loop env modelInfo fileNames (completedFiles + 1)
             (reported @
                [real (completedFiles + 1) / real (length (requiredFiles modelInfo)) * 100])
      else download_loop env modelInfo fileNames completedFiles reported)"

text \<open>
  What a call of \<^verbatim>\<open>ModelDownloader.download\<close> does, as far as its caller can see: the
  values it gives to \<^verbatim>\<open>onProgress\<close>, in order, and then either the boolean it
  returns (\<^verbatim>\<open>Inr\<close>) or the message of the error it throws (\<^verbatim>\<open>Inl\<close>).
  \<^verbatim>\<open>ModelService\<close> takes its downloader as a constructor argument; so do the
  definitions of the service below.
\<close>

type_synonym Downloader = "ModelInfo \<Rightarrow> real list \<times> (string + bool)"

text \<open>
  \<^verbatim>\<open>HuggingFaceDownloader.download\<close>, the downloader that the container wires: it
  returns whether \<^verbatim>\<open>config.json\<close> can be accessed after the loop. A failing
  \<^verbatim>\<open>mkdir\<close> is caught by the outer \<^verbatim>\<open>try\<close> and gives false; nothing is thrown.
\<close>

definition download :: "Env \<Rightarrow> Downloader" where
  "download env modelInfo =
     (if mkdir_ok env (localPath modelInfo)
      then (let (completedFiles, reported) =
                  download_loop env modelInfo (requiredFiles modelInfo) 0 []
            in (reported, Inr (access_ok env (localPath modelInfo) ''config.json'')))
      else ([], Inr False))"

section \<open>TransformersLoader\<close>

definition loadModel :: "Env \<Rightarrow> Model \<Rightarrow> World \<Rightarrow> bool \<times> World" where
  "loadModel env model w =
     (let w = record_call (LoadModel (name (info model))) w in
      if pipeline_ok env (modelType (info model)) (huggingFaceId (info model))
      then (let pipe = \<lparr>pipe_task = modelType (info model),
                         pipe_model = huggingFaceId (info model),
                         pipe_cache_dir = localPath (info model)\<rparr>
            in (True, w\<lparr>loadedModels := map_set (name (info model)) pipe (loadedModels w)\<rparr>))
      else (False, w))"

definition unloadModel :: "string \<Rightarrow> World \<Rightarrow> bool \<times> World" where
  "unloadModel modelName w =
     (let w = record_call (UnloadModel modelName) w in
      if map_has modelName (loadedModels w)
      then (True, w\<lparr>loadedModels := map_delete modelName (loadedModels w)\<rparr>)
      else (True, w))"

definition isModelLoaded :: "string \<Rightarrow> World \<Rightarrow> bool \<times> World" where
  "isModelLoaded modelName w =
     (map_has modelName (loadedModels w), record_call (IsModelLoaded modelName) w)"

definition getLoadedModels :: "World \<Rightarrow> string list" where
  "getLoadedModels w = map fst (loadedModels w)"

record GenerationRequest =
  prompt :: string
  maxTokens :: "real option"
  temperature :: "real option"
  topP :: "real option"
  topK :: "real option"
  repetitionPenalty :: "real option"
  doSample :: "bool option"

record GenerationResponse =
  r_text :: string
  tokensUsed :: nat
  processingTimeMs :: nat
  r_model :: string
  timestamp :: nat

text \<open>\<^verbatim>\<open>x || d\<close> on an optional number: \<open>d\<close> when \<open>x\<close> is undefined or zero.\<close>

definition or_default :: "real option \<Rightarrow> real \<Rightarrow> real" where
  "or_default x d = (case x of None \<Rightarrow> d | Some v \<Rightarrow> if v = 0 then d else v)"

text \<open>\<^verbatim>\<open>s.split(" ").length\<close>: one more than the number of spaces.\<close>

definition split_length :: "string \<Rightarrow> nat" where
  "split_length s = Suc (length (filter (\<lambda>c. c = CHR '' '') s))"

text \<open>
  \<^verbatim>\<open>generate\<close>: the first entry of \<^verbatim>\<open>loadedModels\<close> serves the request. \<^verbatim>\<open>Inl\<close> is
  the message of the \<^verbatim>\<open>Error\<close> thrown.
\<close>

definition generate ::
  "Env \<Rightarrow> GenerationRequest \<Rightarrow> World \<Rightarrow> (string + GenerationResponse) \<times> World" where
  "generate env request w =
     (let w = record_call Generate w in
      case loadedModels w of
        [] \<Rightarrow> (Inl ''No model loaded'', w)
      | modelEntry # others \<Rightarrow>
          (let modelName = fst modelEntry;
               pipeline = snd modelEntry;
               options = \<lparr>max_new_tokens = or_default (maxTokens request) 100,
                          o_temperature = or_default (temperature request) 0.7,
                          top_p = or_default (topP request) 0.9,
                          do_sample = (doSample request \<noteq> Some False),
                          repetition_penalty = or_default (repetitionPenalty request) 1.1\<rparr>
           in case run_pipeline env pipeline (prompt request) options of
                PipelineText generatedText \<Rightarrow>
                  (Inr \<lparr>r_text = generatedText, tokensUsed = split_length generatedText,
                        processingTimeMs = elapsed env, r_model = modelName,
                        timestamp = clock env + elapsed env\<rparr>, w)
              | PipelineThrows e \<Rightarrow>
                  (Inl (''Generation failed: '' @
                        (case e of Some m \<Rightarrow> m | None \<Rightarrow> ''Unknown error'')), w)))"

section \<open>ModelService\<close>

record SetupModelResult =
  setup_success :: bool
  setup_model :: "string option"
  setup_status :: "ModelStatus option"
  setup_error :: "string option"

record GenerationResult =
  gen_success :: bool
  gen_response :: "GenerationResponse option"
  gen_error :: "string option"

record ModelStatusReport =
  st_model :: "string option"
  st_status :: "ModelStatus option"
  st_ready :: bool

definition setup_failed :: "string \<Rightarrow> SetupModelResult" where
  "setup_failed e =
     \<lparr>setup_success = False, setup_model = None, setup_status = None, setup_error = Some e\<rparr>"

definition setup_ok :: "string \<Rightarrow> ModelStatus \<Rightarrow> SetupModelResult" where
  "setup_ok modelName st =
     \<lparr>setup_success = True, setup_model = Some modelName, setup_status = Some st,
      setup_error = None\<rparr>"

text \<open>
  A call of \<^verbatim>\<open>onProgress\<close>: the percentage and the stage. Percentages are doubles in
  the source and reals here, so \<^verbatim>\<open>10 + progress * 0.6\<close> is exact.
\<close>

type_synonym Progress = "real \<times> string"

text \<open>
  The block "Download if needed" of \<^verbatim>\<open>setupModel\<close>. \<^verbatim>\<open>Inl\<close> is a result returned
  from inside the block (by a \<^verbatim>\<open>return\<close>, or by the \<^verbatim>\<open>catch\<close> of \<^verbatim>\<open>setupModel\<close> when a
  save or the downloader throws); \<^verbatim>\<open>Inr\<close> is the model with which control goes on after the block. The
  second component lists the calls of \<^verbatim>\<open>onProgress\<close> the block makes.
\<close>

definition downloadIfNeeded ::
  "Downloader \<Rightarrow> Model \<Rightarrow> World \<Rightarrow> (SetupModelResult + Model) \<times> Progress list \<times> World" where
  "downloadIfNeeded downloader model w =
     (if status model = NOT_DOWNLOADED
      then (let p = [(10, ''Downloading model...'')];
                model = markDownloading model
            in case saveModel model w of
                 (Some e, w) \<Rightarrow> (Inl (setup_failed e), p, w)
               | (None, w) \<Rightarrow>
                   (let w = record_call (Download (name (info model))) w;
                        (reported, outcome) = downloader (info model);
                        p = p @ map (\<lambda>progress. (10 + progress * 0.6, ''Downloading model...''))
                                  reported
                    in case outcome of
                         Inl e \<Rightarrow> (Inl (setup_failed e), p, w)
                       | Inr downloadSuccess \<Rightarrow>
                           if downloadSuccess
                           then (let model = markDownloaded model
                                 in case saveModel model w of
                                      (Some e, w) \<Rightarrow> (Inl (setup_failed e), p, w)
                                    | (None, w) \<Rightarrow> (Inr model, p, w))
                           else (let model = markError ''Download failed'' model
                                 in case saveModel model w of
                                      (Some e, w) \<Rightarrow> (Inl (setup_failed e), p, w)
                                    | (None, w) \<Rightarrow>
                                        (Inl (setup_failed ''Download failed''), p, w))))
      else (Inr model, [], w))"

text \<open>
  The block "Load model" of \<^verbatim>\<open>setupModel\<close>, in the same form. \<^verbatim>\<open>currentModel\<close> is
  assigned before the last save, so it stays assigned when that save throws.
\<close>

definition loadIfNeeded ::
  "Env \<Rightarrow> Model \<Rightarrow> World \<Rightarrow> (SetupModelResult + Model) \<times> Progress list \<times> World" where
  "loadIfNeeded env model w =
     (if status model = DOWNLOADED
      then (let p = [(70, ''Loading model into memory...'')];
                model = markLoading model
            in case saveModel model w of
                 (Some e, w) \<Rightarrow> (Inl (setup_failed e), p, w)
               | (None, w) \<Rightarrow>
                   (let (loadSuccess, w) = loadModel env model w
                    in if loadSuccess
                       then (let model = markLoaded (clock env) model;
                                 w = w\<lparr>currentModel := Some model\<rparr>
                             in case saveModel model w of
                                  (Some e, w) \<Rightarrow> (Inl (setup_failed e), p, w)
                                | (None, w) \<Rightarrow> (Inr model, p, w))
                       else (let model = markError ''Loading failed'' model
                             in case saveModel model w of
                                  (Some e, w) \<Rightarrow> (Inl (setup_failed e), p, w)
                                | (None, w) \<Rightarrow>
                                    (Inl (setup_failed ''Loading failed''), p, w))))
      else (Inr model, [], w))"

text \<open>
  \<^verbatim>\<open>setupModel\<close>: the result, the calls of \<^verbatim>\<open>onProgress\<close> in order (those that are
  made when a callback is given), and the state afterwards.
  \<^verbatim>\<open>model.isReady && this.loader.isModelLoaded(modelName)\<close> asks the loader only when
  the model is ready.
\<close>

definition setupModel ::
  "Downloader \<Rightarrow> Env \<Rightarrow> string \<Rightarrow> World \<Rightarrow> SetupModelResult \<times> Progress list \<times> World"
  where
  "setupModel downloader env modelName w =
     (let p0 = [(0, ''Initializing...'')];
          (found, w) = getModel env modelName w
      in case found of
           None \<Rightarrow> (setup_failed (''Model '' @ modelName @ '' not found in registry''), p0, w)
         | Some model \<Rightarrow>
             (let (alreadyLoaded, w) =
                    (if isReady model then isModelLoaded modelName w else (False, w))
              in if alreadyLoaded
                 then (setup_ok modelName (status model), p0, w\<lparr>currentModel := Some model\<rparr>)
                 else (case downloadIfNeeded downloader model w of
                         (Inl result, p1, w) \<Rightarrow> (result, p0 @ p1, w)
                       | (Inr model, p1, w) \<Rightarrow>
                           (case loadIfNeeded env model w of
                              (Inl result, p2, w) \<Rightarrow> (result, p0 @ p1 @ p2, w)
                            | (Inr model, p2, w) \<Rightarrow>
                                (setup_ok modelName (status model),
                                 p0 @ p1 @ p2 @ [(100, ''Model ready!'')], w)))))"

text \<open>
  \<^verbatim>\<open>generateText\<close>: what the loader throws becomes a failed result with its message.
\<close>

definition generateText :: "Env \<Rightarrow> GenerationRequest \<Rightarrow> World \<Rightarrow> GenerationResult \<times> World" where
  "generateText env request w =
     (if (case currentModel w of None \<Rightarrow> True | Some m \<Rightarrow> \<not> isReady m)
      then (\<lparr>gen_success = False, gen_response = None, gen_error = Some ''No model loaded''\<rparr>, w)
      else (case generate env request w of
              (Inr response, w) \<Rightarrow>
                (\<lparr>gen_success = True, gen_response = Some response, gen_error = None\<rparr>, w)
            | (Inl message, w) \<Rightarrow>
                (\<lparr>gen_success = False, gen_response = None, gen_error = Some message\<rparr>, w)))"

definition getModelStatus :: "World \<Rightarrow> ModelStatusReport" where
  "getModelStatus w =
     (case currentModel w of
        None \<Rightarrow> \<lparr>st_model = None, st_status = None, st_ready = False\<rparr>
      | Some m \<Rightarrow>
          \<lparr>st_model = Some (name (info m)), st_status = Some (status m), st_ready = isReady m\<rparr>)"

definition unloadCurrentModel :: "World \<Rightarrow> bool \<times> World" where
  "unloadCurrentModel w =
     (case currentModel w of
        None \<Rightarrow> (True, w)
      | Some m \<Rightarrow>
          (let (success, w) = unloadModel (name (info m)) w
           in if success then (True, w\<lparr>currentModel := None\<rparr>) else (False, w)))"

section \<open>Closed examples\<close>

text \<open>An environment in which the network, the disk and the library all work.\<close>

definition fair_env :: Env where
  "fair_env =
     \<lparr>clock = 1000, elapsed = 5, mkdir_ok = (\<lambda>dir. True),
      downloadFile_ok = (\<lambda>repo path. True), access_ok = (\<lambda>dir file. True),
      pipeline_ok = (\<lambda>task m. True),
      run_pipeline = (\<lambda>pipe prompt options. PipelineText (prompt @ '' and so on''))\<rparr>"

text \<open>A fresh process on an empty disk, with a catalogue.\<close>

definition fresh_world :: "(string \<rightharpoonup> ModelRegistryEntry) \<Rightarrow> World" where
  "fresh_world catalogue =
     \<lparr>registry_file = Map.empty, write_faults = [], models = catalogue,
      loadedModels = [], currentModel = None, calls = []\<rparr>"

definition distilgpt2 :: ModelInfo where
  "distilgpt2 =
     \<lparr>name = ''distilgpt2'', huggingFaceId = ''distilgpt2'', version = ''1.0.0'',
      description = Some ''DistilGPT-2 - Distilled version of GPT-2, faster inference'',
      localPath = ''models/distilgpt2'', modelType = TextGeneration, sizeGB = Some 0.3,
      requiredFiles = [''config.json'', ''pytorch_model.bin'', ''tokenizer.json'',
                       ''tokenizer_config.json'']\<rparr>"

definition two_models :: "string \<rightharpoonup> ModelRegistryEntry" where
  "two_models =
     [''gpt2-small'' \<mapsto>
        \<lparr>e_info = gpt2_small, tags = [''text-generation'', ''fast'', ''lightweight''],
         popularity = 95, verified = True\<rparr>,
      ''distilgpt2'' \<mapsto>
        \<lparr>e_info = distilgpt2, tags = [''text-generation'', ''distilled'', ''fast''],
         popularity = 75, verified = True\<rparr>]"

text \<open>An environment with the network down: no file downloads, no file is on the disk.\<close>

definition offline_env :: Env where
  "offline_env = fair_env\<lparr>downloadFile_ok := (\<lambda>repo path. False),
                           access_ok := (\<lambda>dir file. False)\<rparr>"

text \<open>
  The states after \<^verbatim>\<open>setupModel("gpt2-small")\<close> on a fresh process, after
  \<^verbatim>\<open>setupModel("distilgpt2")\<close> following it, and after \<^verbatim>\<open>setupModel("gpt2-small")\<close>
  on a fresh process with the network down.
\<close>

definition after_first :: World where
  "after_first =
     snd (snd (setupModel (download fair_env) fair_env ''gpt2-small'' (fresh_world two_models)))"

definition after_second :: World where
  "after_second =
     snd (snd (setupModel (download fair_env) fair_env ''distilgpt2'' after_first))"

definition after_failed_download :: World where
  "after_failed_download =
     snd (snd (setupModel (download offline_env) offline_env ''gpt2-small''
                 (fresh_world two_models)))"

definition hello_request :: GenerationRequest where
  "hello_request =
     \<lparr>prompt = ''Hello, world!'', maxTokens = None, temperature = None, topP = None,
      topK = None, repetitionPenalty = None, doSample = None\<rparr>"

section \<open>The model record's transitions\<close>

lemmas mark_defs =
  markDownloading_def markDownloaded_def markLoading_def markLoaded_def markError_def

lemmas builder_defs =
  newModelInfoBuilder_def setName_def setHuggingFaceId_def setVersion_def
  setDescription_def setLocalPath_def setModelType_def setSizeGB_def setRequiredFiles_def
  build_def falsy_string_def falsy_object_def

lemma status_loaded_has_timestamp:
  "status (transitions ts m) = LOADED \<longrightarrow> loadedAt (transitions ts m) \<noteq> None"
  if "status m = LOADED \<longrightarrow> loadedAt m \<noteq> None"
  using that
proof (induction ts arbitrary: m)
  case Nil
  then show ?case by simp
next
  case (Cons t ts)
  have "status (transition t m) = LOADED \<longrightarrow> loadedAt (transition t m) \<noteq> None"
    by (cases t) (simp_all add: mark_defs)
  from Cons.IH [OF this] show ?case by simp
qed

text \<open>
  C2, as amended. \<^verbatim>\<open>markLoaded()\<close> has no guard: from a record in any state it gives a
  record in state \<open>LOADED\<close>, with the activation timestamp set to the current time, the
  error message cleared and the descriptor unchanged. No state makes it fail.
\<close>

theorem markLoaded_unguarded:
  "status (markLoaded now m) = LOADED \<and> loadedAt (markLoaded now m) = Some now \<and>
   errorMessage (markLoaded now m) = None \<and> info (markLoaded now m) = info m"
  by (simp add: markLoaded_def)

text \<open>
  Against C2 as stated: a fresh record is in state \<open>NOT_DOWNLOADED\<close>, and
  \<^verbatim>\<open>markLoaded()\<close> on it yields a record in state \<open>LOADED\<close>.
\<close>

theorem markLoaded_from_NotDownloaded_counterexample:
  "status (newModel gpt2_small) = NOT_DOWNLOADED \<and>
   status (markLoaded 1000 (newModel gpt2_small)) = LOADED"
  by (simp add: markLoaded_def newModel_def)

text \<open>
  C8, as amended. A fresh record has no activation timestamp; \<^verbatim>\<open>markLoaded()\<close> sets it;
  \<^verbatim>\<open>markDownloading()\<close>, \<^verbatim>\<open>markDownloaded()\<close>, \<^verbatim>\<open>markLoading()\<close> and \<^verbatim>\<open>markError()\<close>
  leave it as it is. So after any run of transitions on a fresh record, a record in
  state \<open>LOADED\<close> has a timestamp; the converse does not hold.
\<close>

theorem loadedAt_set_never_cleared:
  "loadedAt (newModel i) = None \<and>
   loadedAt (markLoaded now m) = Some now \<and>
   loadedAt (markDownloading m) = loadedAt m \<and>
   loadedAt (markDownloaded m) = loadedAt m \<and>
   loadedAt (markLoading m) = loadedAt m \<and>
   loadedAt (markError e m) = loadedAt m \<and>
   (status (transitions ts (newModel i)) = LOADED \<longrightarrow>
      loadedAt (transitions ts (newModel i)) \<noteq> None)"
proof -
  have "status (newModel i) = LOADED \<longrightarrow> loadedAt (newModel i) \<noteq> None"
    by (simp add: newModel_def)
  from status_loaded_has_timestamp [OF this, of ts] show ?thesis
    by (simp add: mark_defs newModel_def)
qed

theorem loadedAt_set_never_cleared_witness:
  "status (transitions [MarkDownloading, MarkDownloaded, MarkLoading, MarkLoaded 1000]
             (newModel gpt2_small)) = LOADED \<and>
   loadedAt (transitions [MarkDownloading, MarkDownloaded, MarkLoading, MarkLoaded 1000]
               (newModel gpt2_small)) \<noteq> None"
  using loadedAt_set_never_cleared
    [of gpt2_small 0 "newModel gpt2_small" "[]"
        "[MarkDownloading, MarkDownloaded, MarkLoading, MarkLoaded 1000]"]
  by (simp add: mark_defs newModel_def)

text \<open>
  Against C8 as stated: after \<^verbatim>\<open>markLoaded()\<close> and then \<^verbatim>\<open>markDownloading()\<close> the
  record is in state \<open>DOWNLOADING\<close> and still carries the timestamp.
\<close>

theorem loadedAt_after_reentry_counterexample:
  "status (markDownloading (markLoaded 1000 (newModel gpt2_small))) = DOWNLOADING \<and>
   loadedAt (markDownloading (markLoaded 1000 (newModel gpt2_small))) = Some 1000"
  by (simp add: mark_defs newModel_def)

section \<open>The builder's validation\<close>

text \<open>
  C9, as amended. \<^verbatim>\<open>build()\<close> throws its one error exactly when the name, the
  Hugging Face identifier, the version or the local path is absent or the empty
  string, or the model type or the list of required files is absent; in every other
  case it returns a descriptor. A list of required files that is present and empty
  passes: the descriptor is built with the empty list.
\<close>

theorem build_fails_iff_missing:
  "(build b = Inl ''Missing required ModelInfo fields'') =
     (b_name b = None \<or> b_name b = Some [] \<or>
      b_huggingFaceId b = None \<or> b_huggingFaceId b = Some [] \<or>
      b_version b = None \<or> b_version b = Some [] \<or>
      b_localPath b = None \<or> b_localPath b = Some [] \<or>
      b_modelType b = None \<or> b_requiredFiles b = None) \<and>
   ((\<exists>i. build b = Inr i) = (build b \<noteq> Inl ''Missing required ModelInfo fields'')) \<and>
   (build (setRequiredFiles [] (setModelType t (setLocalPath (p # ps) (setVersion (v # vs)
      (setHuggingFaceId (h # hs) (setName (n # ns) newModelInfoBuilder)))))) =
    Inr \<lparr>name = n # ns, huggingFaceId = h # hs, version = v # vs, description = None,
         localPath = p # ps, modelType = t, sizeGB = None, requiredFiles = []\<rparr>)"
  by (auto simp add: builder_defs)

text \<open>
  Against C9 as stated: a builder with every field set and the empty list of required
  files builds a descriptor.
\<close>

theorem build_empty_requiredFiles_counterexample:
  "build (setRequiredFiles [] (setSizeGB (Some 0.5) (setModelType TextGeneration
     (setLocalPath ''models/gpt2-small'' (setDescription (Some ''GPT-2 Small'')
       (setVersion ''1.0.0'' (setHuggingFaceId ''gpt2''
         (setName ''gpt2-small'' newModelInfoBuilder))))))))
   = Inr \<lparr>name = ''gpt2-small'', huggingFaceId = ''gpt2'', version = ''1.0.0'',
          description = Some ''GPT-2 Small'', localPath = ''models/gpt2-small'',
          modelType = TextGeneration, sizeGB = Some 0.5, requiredFiles = []\<rparr>"
  by (simp add: builder_defs)

section \<open>Frame lemmas: what each operation leaves alone\<close>

lemmas service_defs =
  setupModel_def downloadIfNeeded_def loadIfNeeded_def getModel_def getKnownModel_def
  saveModel_def saveRegistry_def loadModel_def isModelLoaded_def record_call_def download_def
  setup_ok_def setup_failed_def toJSON_def isReady_def newModel_def map_has_def
  generateText_def generate_def getModelStatus_def or_default_def split_length_def

lemmas example_defs =
  fair_env_def fresh_world_def two_models_def gpt2_small_def distilgpt2_def

lemma record_call_frame [simp]:
  "loadedModels (record_call c w) = loadedModels w"
  "currentModel (record_call c w) = currentModel w"
  "calls (record_call c w) = calls w @ [c]"
  "models (record_call c w) = models w"
  "registry_file (record_call c w) = registry_file w"
  "write_faults (record_call c w) = write_faults w"
  by (simp_all add: record_call_def)

lemma map_has_map_set [simp]: "map_has k (map_set k' v es) = (k = k' \<or> map_has k es)"
  by (induction es) (auto simp add: map_has_def)

lemma saveModel_frame [simp]:
  "loadedModels (snd (saveModel m w)) = loadedModels w"
  "currentModel (snd (saveModel m w)) = currentModel w"
  "calls (snd (saveModel m w)) = calls w"
  "models (snd (saveModel m w)) = models w"
  by (simp_all add: saveModel_def saveRegistry_def Let_def split: list.splits option.splits)

lemma saveModel_registry_file:
  "registry_file (snd (saveModel m w)) =
     (if fst (saveModel m w) = None then (registry_file w)(name (info m) \<mapsto> toJSON m)
      else registry_file w)"
  by (simp add: saveModel_def saveRegistry_def Let_def split: list.splits option.splits)

lemma saveModel_unload_calls [simp]:
  "(UnloadModel k \<in> set (calls (snd (saveModel m w)))) = (UnloadModel k \<in> set (calls w))"
  by simp

lemma getModel_frame [simp]:
  "loadedModels (snd (getModel env n w)) = loadedModels w"
  "currentModel (snd (getModel env n w)) = currentModel w"
  "calls (snd (getModel env n w)) = calls w"
  "models (snd (getModel env n w)) = models w"
  by (simp_all add: getModel_def Let_def case_prod_beta split: option.splits sum.splits)

lemma getModel_status:
  "fst (getModel env n w) = Some m \<Longrightarrow>
   status m = NOT_DOWNLOADED \<or> status m = DOWNLOADED \<or> status m = LOADED \<or> status m = ERROR"
  by (auto simp add: getModel_def getKnownModel_def Let_def newModel_def mark_defs case_prod_beta
      split: option.splits sum.splits ModelStatus.splits)

lemma getModel_unchanged_if_stored:
  "registry_file w n \<noteq> None \<Longrightarrow> snd (getModel env n w) = w"
  by (auto simp add: getModel_def Let_def split: option.splits sum.splits)

lemma getModel_fresh_status:
  "registry_file w n = None \<Longrightarrow> fst (getModel env n w) = Some m \<Longrightarrow> status m = NOT_DOWNLOADED"
  by (auto simp add: getModel_def getKnownModel_def newModel_def case_prod_beta
      split: option.splits)

lemma getModel_loaded_stored:
  "fst (getModel env n w) = Some m \<Longrightarrow> status m \<noteq> NOT_DOWNLOADED \<Longrightarrow> snd (getModel env n w) = w"
  using getModel_fresh_status [of w n env m] getModel_unchanged_if_stored [of w n env]
  by blast

lemma isModelLoaded_simps [simp]:
  "fst (isModelLoaded n w) = map_has n (loadedModels w)"
  "snd (isModelLoaded n w) = record_call (IsModelLoaded n) w"
  by (simp_all add: isModelLoaded_def)

lemma loadModel_frame [simp]:
  "currentModel (snd (loadModel env m w)) = currentModel w"
  "registry_file (snd (loadModel env m w)) = registry_file w"
  "calls (snd (loadModel env m w)) = calls w @ [LoadModel (name (info m))]"
  "models (snd (loadModel env m w)) = models w"
  by (simp_all add: loadModel_def Let_def)

lemma loadModel_loadedModels:
  "loadedModels (snd (loadModel env m w)) =
     (if fst (loadModel env m w)
      then map_set (name (info m))
             \<lparr>pipe_task = modelType (info m), pipe_model = huggingFaceId (info m),
              pipe_cache_dir = localPath (info m)\<rparr> (loadedModels w)
      else loadedModels w)"
  by (simp add: loadModel_def Let_def)

lemma downloadIfNeeded_frame [simp]:
  "loadedModels (snd (snd (downloadIfNeeded dl m w))) = loadedModels w"
  "currentModel (snd (snd (downloadIfNeeded dl m w))) = currentModel w"
  by (simp_all add: downloadIfNeeded_def Let_def case_prod_beta
      split: option.splits sum.splits)

lemma downloadIfNeeded_skip:
  "status m \<noteq> NOT_DOWNLOADED \<Longrightarrow> downloadIfNeeded dl m w = (Inr m, [], w)"
  by (simp add: downloadIfNeeded_def)

lemma downloadIfNeeded_Inr:
  "fst (downloadIfNeeded dl m w) = Inr m' \<Longrightarrow> status m = NOT_DOWNLOADED \<Longrightarrow>
   m' = markDownloaded (markDownloading m)"
  by (auto simp add: downloadIfNeeded_def Let_def case_prod_beta
      split: option.splits sum.splits if_splits)

lemma downloadIfNeeded_Inl:
  "fst (downloadIfNeeded dl m w) = Inl r \<Longrightarrow> \<not> setup_success r"
  by (auto simp add: downloadIfNeeded_def Let_def case_prod_beta setup_failed_def
      split: option.splits sum.splits if_splits)

lemma downloadIfNeeded_unload_calls [simp]:
  "(UnloadModel k \<in> set (calls (snd (snd (downloadIfNeeded dl m w))))) =
   (UnloadModel k \<in> set (calls w))"
  by (simp add: downloadIfNeeded_def Let_def case_prod_beta split: option.splits sum.splits)

lemma loadIfNeeded_skip:
  "status m \<noteq> DOWNLOADED \<Longrightarrow> loadIfNeeded env m w = (Inr m, [], w)"
  by (simp add: loadIfNeeded_def)

lemma loadIfNeeded_Inr:
  "fst (loadIfNeeded env m w) = Inr m' \<Longrightarrow> status m = DOWNLOADED \<Longrightarrow>
   m' = markLoaded (clock env) (markLoading m) \<and>
   currentModel (snd (snd (loadIfNeeded env m w))) = Some m' \<and>
   map_has (name (info m)) (loadedModels (snd (snd (loadIfNeeded env m w)))) \<and>
   fst (snd (loadIfNeeded env m w)) = [(70, ''Loading model into memory...'')]"
  by (auto simp add: loadIfNeeded_def Let_def case_prod_beta mark_defs loadModel_loadedModels
      split: option.splits sum.splits if_splits)

lemma loadIfNeeded_Inl:
  "fst (loadIfNeeded env m w) = Inl r \<Longrightarrow> \<not> setup_success r"
  by (auto simp add: loadIfNeeded_def Let_def case_prod_beta setup_failed_def
      split: option.splits sum.splits if_splits)

lemma loadIfNeeded_keeps_loaded:
  "map_has k (loadedModels w) \<Longrightarrow>
   map_has k (loadedModels (snd (snd (loadIfNeeded env m w))))"
  by (auto simp add: loadIfNeeded_def Let_def case_prod_beta mark_defs loadModel_loadedModels
      split: option.splits sum.splits if_splits)

lemma loadIfNeeded_unload_calls [simp]:
  "(UnloadModel k \<in> set (calls (snd (snd (loadIfNeeded env m w))))) =
   (UnloadModel k \<in> set (calls w))"
  by (simp add: loadIfNeeded_def Let_def case_prod_beta split: option.splits sum.splits)

lemma setupModel_unload_calls:
  "(UnloadModel k \<in> set (calls (snd (snd (setupModel dl env n w))))) =
   (UnloadModel k \<in> set (calls w))"
  by (simp add: setupModel_def Let_def case_prod_beta split: option.splits sum.splits)

lemma setupModel_keeps_loaded:
  "map_has a (loadedModels w) \<Longrightarrow> map_has a (loadedModels (snd (snd (setupModel dl env n w))))"
  by (simp add: setupModel_def Let_def case_prod_beta loadIfNeeded_keeps_loaded
      split: option.splits sum.splits)

text \<open>
  The first entry of the loader's map keeps its place: \<^verbatim>\<open>Map.set\<close> replaces a value
  where it stands and appends a new key.
\<close>

lemma loadModel_keeps_first:
  "loadedModels w \<noteq> [] \<Longrightarrow>
   loadedModels (snd (loadModel env m w)) \<noteq> [] \<and>
   fst (hd (loadedModels (snd (loadModel env m w)))) = fst (hd (loadedModels w))"
  by (cases "loadedModels w") (simp_all add: loadModel_def Let_def)

lemma loadIfNeeded_keeps_first:
  assumes "loadedModels w \<noteq> []"
  shows "loadedModels (snd (snd (loadIfNeeded env m w))) \<noteq> [] \<and>
         fst (hd (loadedModels (snd (snd (loadIfNeeded env m w))))) = fst (hd (loadedModels w))"
proof -
  have "loadedModels (snd (saveModel m' w)) \<noteq> []" for m'
    using assms by simp
  from loadModel_keeps_first [OF this] assms show ?thesis
    by (simp add: loadIfNeeded_def Let_def case_prod_beta split: option.splits sum.splits)
qed

lemma setupModel_keeps_first:
  assumes "loadedModels w \<noteq> []"
  shows "loadedModels (snd (snd (setupModel dl env n w))) \<noteq> [] \<and>
         fst (hd (loadedModels (snd (snd (setupModel dl env n w))))) = fst (hd (loadedModels w))"
proof -
  have "loadedModels (snd (snd (loadIfNeeded env m' w''))) \<noteq> [] \<and>
        fst (hd (loadedModels (snd (snd (loadIfNeeded env m' w''))))) = fst (hd (loadedModels w))"
    if "loadedModels w'' = loadedModels w" for m' w''
    using loadIfNeeded_keeps_first [of w'' env m'] that assms by simp
  then show ?thesis
    using assms
    by (simp add: setupModel_def Let_def case_prod_beta split: option.splits sum.splits)
qed

lemma generate_world [simp]: "snd (generate env request w) = record_call Generate w"
  by (simp add: generate_def Let_def split: list.splits PipelineOutcome.splits)

lemma generate_Inr_model:
  "fst (generate env request w) = Inr response \<Longrightarrow> loadedModels w = (n, pipe) # others \<Longrightarrow>
   r_model response = n"
  by (auto simp add: generate_def Let_def split: list.splits PipelineOutcome.splits)

lemma generate_no_models:
  "loadedModels w = [] \<Longrightarrow> fst (generate env request w) = Inl ''No model loaded''"
  by (simp add: generate_def Let_def)

text \<open>
  Releasing a model is a separate operation of the service: \<^verbatim>\<open>unloadCurrentModel\<close>
  asks the loader to drop the current model's pipeline and clears the current model.
\<close>

lemma unloadCurrentModel_releases:
  assumes "currentModel w = Some m"
  shows "fst (unloadCurrentModel w) \<and>
         currentModel (snd (unloadCurrentModel w)) = None \<and>
         \<not> map_has (name (info m)) (loadedModels (snd (unloadCurrentModel w))) \<and>
         calls (snd (unloadCurrentModel w)) = calls w @ [UnloadModel (name (info m))]"
  using assms
  by (auto simp add: unloadCurrentModel_def unloadModel_def Let_def map_has_def map_delete_def)

section \<open>The closed examples, evaluated\<close>

text \<open>
  With the default base path, the catalogue that \<^verbatim>\<open>initializeModels\<close> builds holds
  the two entries of \<open>two_models\<close>.
\<close>

lemma initializeModels_entries:
  "\<exists>catalogue. initializeModels (\<lambda>n. ''models/'' @ n) = Inr catalogue \<and>
     catalogue ''gpt2-small'' = two_models ''gpt2-small'' \<and>
     catalogue ''distilgpt2'' = two_models ''distilgpt2''"
  by (simp add: initializeModels_def modelConfigs_def builder_defs two_models_def
      gpt2_small_def distilgpt2_def Let_def)

lemma first_setup:
  "setupModel (download fair_env) fair_env ''gpt2-small'' (fresh_world two_models) =
   (setup_ok ''gpt2-small'' LOADED,
    [(0, ''Initializing...''), (10, ''Downloading model...''),
     (25, ''Downloading model...''), (40, ''Downloading model...''),
     (55, ''Downloading model...''), (70, ''Downloading model...''),
     (70, ''Loading model into memory...''), (100, ''Model ready!'')],
    \<lparr>registry_file = [''gpt2-small'' \<mapsto> toJSON (markLoaded 1000 (newModel gpt2_small))],
     write_faults = [], models = two_models,
     loadedModels = [(''gpt2-small'', \<lparr>pipe_task = TextGeneration, pipe_model = ''gpt2'',
                                       pipe_cache_dir = ''models/gpt2-small''\<rparr>)],
     currentModel = Some (markLoaded 1000 (newModel gpt2_small)),
     calls = [Download ''gpt2-small'', LoadModel ''gpt2-small'']\<rparr>)"
  by (simp add: service_defs mark_defs builder_defs example_defs Let_def)

lemma after_first_eq:
  "after_first =
    \<lparr>registry_file = [''gpt2-small'' \<mapsto> toJSON (markLoaded 1000 (newModel gpt2_small))],
     write_faults = [], models = two_models,
     loadedModels = [(''gpt2-small'', \<lparr>pipe_task = TextGeneration, pipe_model = ''gpt2'',
                                       pipe_cache_dir = ''models/gpt2-small''\<rparr>)],
     currentModel = Some (markLoaded 1000 (newModel gpt2_small)),
     calls = [Download ''gpt2-small'', LoadModel ''gpt2-small'']\<rparr>"
  by (simp add: after_first_def first_setup)

lemma second_setup:
  "setupModel (download fair_env) fair_env ''distilgpt2'' after_first =
   (setup_ok ''distilgpt2'' LOADED,
    [(0, ''Initializing...''), (10, ''Downloading model...''),
     (25, ''Downloading model...''), (40, ''Downloading model...''),
     (55, ''Downloading model...''), (70, ''Downloading model...''),
     (70, ''Loading model into memory...''), (100, ''Model ready!'')],
    \<lparr>registry_file = [''gpt2-small'' \<mapsto> toJSON (markLoaded 1000 (newModel gpt2_small)),
                      ''distilgpt2'' \<mapsto> toJSON (markLoaded 1000 (newModel distilgpt2))],
     write_faults = [], models = two_models,
     loadedModels = [(''gpt2-small'', \<lparr>pipe_task = TextGeneration, pipe_model = ''gpt2'',
                                       pipe_cache_dir = ''models/gpt2-small''\<rparr>),
                     (''distilgpt2'', \<lparr>pipe_task = TextGeneration, pipe_model = ''distilgpt2'',
                                       pipe_cache_dir = ''models/distilgpt2''\<rparr>)],
     currentModel = Some (markLoaded 1000 (newModel distilgpt2)),
     calls = [Download ''gpt2-small'', LoadModel ''gpt2-small'',
              Download ''distilgpt2'', LoadModel ''distilgpt2'']\<rparr>)"
  by (simp add: after_first_eq service_defs mark_defs builder_defs example_defs Let_def)

lemma after_second_eq:
  "after_second =
    \<lparr>registry_file = [''gpt2-small'' \<mapsto> toJSON (markLoaded 1000 (newModel gpt2_small)),
                      ''distilgpt2'' \<mapsto> toJSON (markLoaded 1000 (newModel distilgpt2))],
     write_faults = [], models = two_models,
     loadedModels = [(''gpt2-small'', \<lparr>pipe_task = TextGeneration, pipe_model = ''gpt2'',
                                       pipe_cache_dir = ''models/gpt2-small''\<rparr>),
                     (''distilgpt2'', \<lparr>pipe_task = TextGeneration, pipe_model = ''distilgpt2'',
                                       pipe_cache_dir = ''models/distilgpt2''\<rparr>)],
     currentModel = Some (markLoaded 1000 (newModel distilgpt2)),
     calls = [Download ''gpt2-small'', LoadModel ''gpt2-small'',
              Download ''distilgpt2'', LoadModel ''distilgpt2'']\<rparr>"
  by (simp add: after_second_def second_setup)

lemma failed_setup:
  "setupModel (download offline_env) offline_env ''gpt2-small'' (fresh_world two_models) =
   (setup_failed ''Download failed'',
    [(0, ''Initializing...''), (10, ''Downloading model...'')],
    \<lparr>registry_file =
       [''gpt2-small'' \<mapsto> toJSON (markError ''Download failed'' (newModel gpt2_small))],
     write_faults = [], models = two_models, loadedModels = [], currentModel = None,
     calls = [Download ''gpt2-small'']\<rparr>)"
  by (simp add: service_defs mark_defs builder_defs example_defs offline_env_def Let_def)

lemma after_failed_download_eq:
  "after_failed_download =
    \<lparr>registry_file =
       [''gpt2-small'' \<mapsto> toJSON (markError ''Download failed'' (newModel gpt2_small))],
     write_faults = [], models = two_models, loadedModels = [], currentModel = None,
     calls = [Download ''gpt2-small'']\<rparr>"
  by (simp add: after_failed_download_def failed_setup)

lemma getModel_after_first:
  "getModel fair_env ''gpt2-small'' after_first =
     (Some (markLoaded 1000 (newModel gpt2_small)), after_first)"
  by (simp add: after_first_eq getModel_def toJSON_def mark_defs builder_defs newModel_def
      isReady_def gpt2_small_def fair_env_def Let_def)

lemma getModel_after_failed_download:
  "getModel fair_env ''gpt2-small'' after_failed_download =
     (Some (markError ''Download failed'' (newModel gpt2_small)), after_failed_download)"
  by (simp add: after_failed_download_eq getModel_def toJSON_def mark_defs builder_defs
      newModel_def isReady_def gpt2_small_def fair_env_def Let_def)

section \<open>The record store: save, then get\<close>

lemma rebuild_info:
  assumes "name i \<noteq> []" "huggingFaceId i \<noteq> []" "version i \<noteq> []" "localPath i \<noteq> []"
  shows "build (setRequiredFiles (requiredFiles i) (setSizeGB (sizeGB i)
           (setModelType (modelType i) (setLocalPath (localPath i)
             (setDescription (description i) (setVersion (version i)
               (setHuggingFaceId (huggingFaceId i) (setName (name i) newModelInfoBuilder))))))))
         = Inr i"
  using assms by (cases i) (simp add: builder_defs)

lemma getModel_stored:
  assumes "registry_file w n = Some d"
    and "name (j_info d) \<noteq> []" "huggingFaceId (j_info d) \<noteq> []"
        "version (j_info d) \<noteq> []" "localPath (j_info d) \<noteq> []"
  shows "getModel env n w =
     (Some (case j_status d of
              DOWNLOADED \<Rightarrow> markDownloaded (newModel (j_info d))
            | LOADED \<Rightarrow> markLoaded (clock env) (newModel (j_info d))
            | ERROR \<Rightarrow>
                markError (case j_errorMessage d of
                             None \<Rightarrow> ''Unknown error''
                           | Some e \<Rightarrow> if e = [] then ''Unknown error'' else e)
                  (newModel (j_info d))
            | _ \<Rightarrow> newModel (j_info d)), w)"
  using assms by (simp add: getModel_def Let_def rebuild_info)

text \<open>
  What does hold of a save followed by a get. Let a save of a record succeed, the
  record's descriptor having a non-empty name, Hugging Face identifier, version and
  local path (what \<^verbatim>\<open>build()\<close> asks of a descriptor). Then \<^verbatim>\<open>getModel\<close> of its name
  returns a record, changes nothing, and the record has the same descriptor. Its
  state is the saved state when that is \<open>NOT_DOWNLOADED\<close>, \<open>DOWNLOADED\<close>, \<open>LOADED\<close> or
  \<open>ERROR\<close>, and \<open>NOT_DOWNLOADED\<close> when the saved state is \<open>DOWNLOADING\<close> or \<open>LOADING\<close>.
  In state \<open>ERROR\<close> a non-empty error message comes back unchanged.
\<close>

lemma saveModel_getModel_roundtrip:
  assumes saved: "saveModel m w = (None, w1)"
    and valid: "name (info m) \<noteq> []" "huggingFaceId (info m) \<noteq> []"
               "version (info m) \<noteq> []" "localPath (info m) \<noteq> []"
  shows "\<exists>m'. getModel env (name (info m)) w1 = (Some m', w1) \<and> info m' = info m \<and>
           status m' = (if status m = DOWNLOADING \<or> status m = LOADING then NOT_DOWNLOADED
                        else status m) \<and>
           (\<forall>e. status m = ERROR \<and> errorMessage m = Some e \<and> e \<noteq> [] \<longrightarrow>
                errorMessage m' = Some e)"
proof -
  have "registry_file w1 = (registry_file w)(name (info m) \<mapsto> toJSON m)"
    using saveModel_registry_file [of m w] saved by simp
  then have stored: "registry_file w1 (name (info m)) = Some (toJSON m)"
    by simp
  have "getModel env (name (info m)) w1 =
     (Some (case j_status (toJSON m) of
              DOWNLOADED \<Rightarrow> markDownloaded (newModel (j_info (toJSON m)))
            | LOADED \<Rightarrow> markLoaded (clock env) (newModel (j_info (toJSON m)))
            | ERROR \<Rightarrow>
                markError (case j_errorMessage (toJSON m) of
                             None \<Rightarrow> ''Unknown error''
                           | Some e \<Rightarrow> if e = [] then ''Unknown error'' else e)
                  (newModel (j_info (toJSON m)))
            | _ \<Rightarrow> newModel (j_info (toJSON m))), w1)"
    using valid by (intro getModel_stored [OF stored]) (simp_all add: toJSON_def)
  then show ?thesis
    by (cases "status m") (simp_all add: toJSON_def mark_defs newModel_def)
qed

lemma saveModel_getModel_roundtrip_example:
  "saveModel (markError ''Download failed'' (newModel gpt2_small)) (fresh_world Map.empty) =
     (None, snd (saveModel (markError ''Download failed'' (newModel gpt2_small))
                   (fresh_world Map.empty))) \<and>
   (\<exists>m'. fst (getModel fair_env ''gpt2-small''
              (snd (saveModel (markError ''Download failed'' (newModel gpt2_small))
                      (fresh_world Map.empty)))) = Some m' \<and>
         info m' = gpt2_small \<and> status m' = ERROR \<and>
         errorMessage m' = Some ''Download failed'')"
proof -
  let ?m = "markError ''Download failed'' (newModel gpt2_small)"
  let ?w = "fresh_world Map.empty"
  have saved: "saveModel ?m ?w = (None, snd (saveModel ?m ?w))"
    by (simp add: saveModel_def saveRegistry_def fresh_world_def Let_def)
  have valid: "name (info ?m) \<noteq> []" "huggingFaceId (info ?m) \<noteq> []"
    "version (info ?m) \<noteq> []" "localPath (info ?m) \<noteq> []"
    by (simp_all add: mark_defs newModel_def gpt2_small_def)
  have facts: "name (info ?m) = ''gpt2-small''" "info ?m = gpt2_small" "status ?m = ERROR"
    "errorMessage ?m = Some ''Download failed''"
    by (simp_all add: mark_defs newModel_def gpt2_small_def)
  from saveModel_getModel_roundtrip [OF saved valid, of fair_env] saved facts
  show ?thesis by auto
qed

text \<open>
  C3, where the code departs from it. C3 says that \<^verbatim>\<open>saveModel\<close> followed by
  \<^verbatim>\<open>getModel\<close> gives back the state of the record in each of the six states. For a
  record saved in state \<open>DOWNLOADING\<close> (as \<^verbatim>\<open>setupModel\<close> saves it before the download)
  the save succeeds and \<^verbatim>\<open>getModel\<close> returns a record in state \<open>NOT_DOWNLOADED\<close>; the
  same happens to a record saved in state \<open>LOADING\<close>.
\<close>

theorem saveModel_getModel_transient_states:
  "fst (saveModel (markDownloading (newModel gpt2_small)) (fresh_world Map.empty)) = None \<and>
   status (markDownloading (newModel gpt2_small)) = DOWNLOADING \<and>
   map_option status
     (fst (getModel fair_env ''gpt2-small''
        (snd (saveModel (markDownloading (newModel gpt2_small)) (fresh_world Map.empty)))))
   = Some NOT_DOWNLOADED \<and>
   fst (saveModel (markLoading (newModel gpt2_small)) (fresh_world Map.empty)) = None \<and>
   status (markLoading (newModel gpt2_small)) = LOADING \<and>
   map_option status
     (fst (getModel fair_env ''gpt2-small''
        (snd (saveModel (markLoading (newModel gpt2_small)) (fresh_world Map.empty)))))
   = Some NOT_DOWNLOADED"
  by (simp add: saveModel_def saveRegistry_def getModel_def Let_def fresh_world_def
      toJSON_def gpt2_small_def builder_defs mark_defs newModel_def isReady_def)

section \<open>setupModel on a record that is loaded, and on one in error\<close>

text \<open>
  C7. When the record that the store resolves for \<open>n\<close> is in state \<open>LOADED\<close> and the
  loader holds a pipeline for \<open>n\<close>, \<^verbatim>\<open>setupModel(n)\<close> returns success with that
  state, makes the record the current model, and the only call that reaches a
  collaborator is the loader's \<^verbatim>\<open>isModelLoaded(n)\<close>: nothing is downloaded, nothing is
  loaded, and the loaded models and the registry document stay as they were.
\<close>

theorem setupModel_idempotent_when_loaded:
  assumes "fst (getModel env n w) = Some m"
    and "status m = LOADED"
    and "map_has n (loadedModels w)"
    and "setupModel dl env n w = (r, p, w')"
  shows "r = setup_ok n LOADED \<and> setup_success r \<and>
         p = [(0, ''Initializing...'')] \<and>
         currentModel w' = Some m \<and>
         calls w' = calls w @ [IsModelLoaded n] \<and>
         loadedModels w' = loadedModels w \<and>
         registry_file w' = registry_file w"
proof -
  have same: "snd (getModel env n w) = w"
    using assms(1,2) by (auto dest: getModel_loaded_stored)
  show ?thesis
    using assms same
    by (auto simp add: setupModel_def Let_def case_prod_beta isReady_def setup_ok_def)
qed

theorem setupModel_idempotent_when_loaded_witness:
  "fst (getModel fair_env ''gpt2-small'' after_first) =
     Some (markLoaded 1000 (newModel gpt2_small)) \<and>
   status (markLoaded 1000 (newModel gpt2_small)) = LOADED \<and>
   map_has ''gpt2-small'' (loadedModels after_first) \<and>
   setup_success (fst (setupModel (download fair_env) fair_env ''gpt2-small'' after_first)) \<and>
   fst (snd (setupModel (download fair_env) fair_env ''gpt2-small'' after_first)) =
     [(0, ''Initializing...'')] \<and>
   calls (snd (snd (setupModel (download fair_env) fair_env ''gpt2-small'' after_first))) =
     [Download ''gpt2-small'', LoadModel ''gpt2-small'', IsModelLoaded ''gpt2-small'']"
proof -
  let ?X = "setupModel (download fair_env) fair_env ''gpt2-small'' after_first"
  have h1: "fst (getModel fair_env ''gpt2-small'' after_first) =
              Some (markLoaded 1000 (newModel gpt2_small))"
    by (simp add: getModel_after_first)
  have h2: "status (markLoaded 1000 (newModel gpt2_small)) = LOADED"
    by (simp add: mark_defs)
  have h3: "map_has ''gpt2-small'' (loadedModels after_first)"
    by (simp add: after_first_eq map_has_def)
  have h4: "?X = (fst ?X, fst (snd ?X), snd (snd ?X))"
    by simp
  have c: "calls after_first = [Download ''gpt2-small'', LoadModel ''gpt2-small'']"
    by (simp add: after_first_eq)
  from setupModel_idempotent_when_loaded [OF h1 h2 h3 h4] h1 h2 h3 c
  show ?thesis by (simp add: setup_ok_def)
qed

text \<open>
  C1, what the code does instead. When the record that the store resolves for \<open>n\<close> is
  in state \<open>ERROR\<close>, \<^verbatim>\<open>setupModel(n)\<close> enters neither block: it reports 0 and then 100
  ("Model ready!"), returns success with state \<open>ERROR\<close>, and leaves the state of the
  process as it was, so neither the downloader nor the loader is called and the
  record stays in \<open>ERROR\<close>. C1 says that the call re-enters \<open>DOWNLOADING\<close> or
  \<open>LOADING\<close> and succeeds only after those steps.
\<close>

theorem setupModel_error_record_reports_ready:
  assumes "fst (getModel env n w) = Some m"
    and "status m = ERROR"
  shows "setupModel dl env n w =
           (setup_ok n ERROR, [(0, ''Initializing...''), (100, ''Model ready!'')], w)"
proof -
  have same: "snd (getModel env n w) = w"
    using assms by (auto dest: getModel_loaded_stored)
  show ?thesis
    using assms same
    by (simp add: setupModel_def Let_def case_prod_beta isReady_def downloadIfNeeded_skip
        loadIfNeeded_skip)
qed

theorem setupModel_error_record_reports_ready_witness:
  "fst (setupModel (download offline_env) offline_env ''gpt2-small'' (fresh_world two_models)) =
     setup_failed ''Download failed'' \<and>
   fst (getModel fair_env ''gpt2-small'' after_failed_download) =
     Some (markError ''Download failed'' (newModel gpt2_small)) \<and>
   status (markError ''Download failed'' (newModel gpt2_small)) = ERROR \<and>
   setupModel (download fair_env) fair_env ''gpt2-small'' after_failed_download =
     (setup_ok ''gpt2-small'' ERROR, [(0, ''Initializing...''), (100, ''Model ready!'')],
      after_failed_download) \<and>
   calls after_failed_download = [Download ''gpt2-small''] \<and>
   loadedModels after_failed_download = []"
proof -
  have h1: "fst (getModel fair_env ''gpt2-small'' after_failed_download) =
              Some (markError ''Download failed'' (newModel gpt2_small))"
    by (simp add: getModel_after_failed_download)
  have h2: "status (markError ''Download failed'' (newModel gpt2_small)) = ERROR"
    by (simp add: mark_defs)
  from setupModel_error_record_reports_ready [OF h1 h2, of "download fair_env"] h1 h2
  show ?thesis by (simp add: failed_setup after_failed_download_eq)
qed

section \<open>One setupModel after another\<close>

lemma setupModel_activates:
  assumes m: "fst (getModel env n w) = Some m"
    and nm: "name (info m) = n"
    and st: "status m = NOT_DOWNLOADED \<or> status m = DOWNLOADED \<or>
             status m = LOADED \<and> map_has n (loadedModels w)"
    and ok: "setup_success (fst (setupModel dl env n w))"
  shows "st_model (getModelStatus (snd (snd (setupModel dl env n w)))) = Some n \<and>
         st_ready (getModelStatus (snd (snd (setupModel dl env n w)))) \<and>
         map_has n (loadedModels (snd (snd (setupModel dl env n w))))"
proof -
  let ?w1 = "snd (getModel env n w)"
  consider (loaded) "status m = LOADED" "map_has n (loadedModels w)"
    | (fresh) "status m = NOT_DOWNLOADED" | (downloaded) "status m = DOWNLOADED"
    using st by blast
  then show ?thesis
  proof cases
    case loaded
    then show ?thesis
      using m nm
      by (simp add: setupModel_def Let_def case_prod_beta isReady_def getModelStatus_def)
  next
    case downloaded
    then have d: "downloadIfNeeded dl m ?w1 = (Inr m, [], ?w1)"
      by (simp add: downloadIfNeeded_skip)
    obtain m' where l: "fst (loadIfNeeded env m ?w1) = Inr m'"
      using ok m downloaded d
      by (cases "fst (loadIfNeeded env m ?w1)")
         (auto simp add: setupModel_def Let_def case_prod_beta isReady_def
            dest: loadIfNeeded_Inl)
    from loadIfNeeded_Inr [OF l downloaded] show ?thesis
      using m nm downloaded d l
      by (simp add: setupModel_def Let_def case_prod_beta isReady_def getModelStatus_def
          mark_defs)
  next
    case fresh
    obtain m1 where d: "fst (downloadIfNeeded dl m ?w1) = Inr m1"
      using ok m fresh
      by (cases "fst (downloadIfNeeded dl m ?w1)")
         (auto simp add: setupModel_def Let_def case_prod_beta isReady_def
            dest: downloadIfNeeded_Inl)
    from downloadIfNeeded_Inr [OF d fresh] have m1: "m1 = markDownloaded (markDownloading m)" .
    then have s1: "status m1 = DOWNLOADED" and i1: "info m1 = info m"
      by (simp_all add: mark_defs)
    let ?w2 = "snd (snd (downloadIfNeeded dl m ?w1))"
    obtain m2 where l: "fst (loadIfNeeded env m1 ?w2) = Inr m2"
      using ok m fresh d
      by (cases "fst (loadIfNeeded env m1 ?w2)")
         (auto simp add: setupModel_def Let_def case_prod_beta isReady_def
            dest: loadIfNeeded_Inl)
    from loadIfNeeded_Inr [OF l s1] show ?thesis
      using m nm fresh d l i1
      by (simp add: setupModel_def Let_def case_prod_beta isReady_def getModelStatus_def
          mark_defs)
  qed
qed

text \<open>
  C4, as amended. Let \<^verbatim>\<open>setupModel(a)\<close> succeed and then \<^verbatim>\<open>setupModel(b)\<close> succeed,
  each on a record stored under its own name that was \<open>NOT_DOWNLOADED\<close> or
  \<open>DOWNLOADED\<close>, or \<open>LOADED\<close> with its pipeline held by the loader. Then
  \<^verbatim>\<open>getModelStatus()\<close> reports \<open>b\<close>, ready; the loader holds a pipeline for \<open>b\<close> and
  still holds the one for \<open>a\<close>; and the two calls have not called \<^verbatim>\<open>unloadModel\<close>.
\<close>

theorem two_setups_keep_both_loaded:
  assumes a: "setupModel dl env a w0 = (ra, pa, w1)" "setup_success ra"
    and ma: "fst (getModel env a w0) = Some ma" "name (info ma) = a"
            "status ma = NOT_DOWNLOADED \<or> status ma = DOWNLOADED \<or>
             status ma = LOADED \<and> map_has a (loadedModels w0)"
    and b: "setupModel dl' env' b w1 = (rb, pb, w2)" "setup_success rb"
    and mb: "fst (getModel env' b w1) = Some mb" "name (info mb) = b"
            "status mb = NOT_DOWNLOADED \<or> status mb = DOWNLOADED \<or>
             status mb = LOADED \<and> map_has b (loadedModels w1)"
  shows "st_model (getModelStatus w2) = Some b \<and> st_ready (getModelStatus w2) \<and>
         map_has b (loadedModels w2) \<and> map_has a (loadedModels w2) \<and>
         (UnloadModel k \<in> set (calls w2)) = (UnloadModel k \<in> set (calls w0))"
proof -
  have w1: "w1 = snd (snd (setupModel dl env a w0))" and ra: "ra = fst (setupModel dl env a w0)"
    using a(1) by simp_all
  have w2: "w2 = snd (snd (setupModel dl' env' b w1))" and rb: "rb = fst (setupModel dl' env' b w1)"
    using b(1) by simp_all
  have "map_has a (loadedModels w1)"
    using setupModel_activates [OF ma] a(2) ra w1 by simp
  then have "map_has a (loadedModels w2)"
    unfolding w2 by (rule setupModel_keeps_loaded)
  moreover have "st_model (getModelStatus w2) = Some b \<and> st_ready (getModelStatus w2) \<and>
      map_has b (loadedModels w2)"
    using setupModel_activates [OF mb] b(2) rb w2 by simp
  moreover have "(UnloadModel k \<in> set (calls w2)) = (UnloadModel k \<in> set (calls w0))"
    unfolding w2 w1 by (simp add: setupModel_unload_calls)
  ultimately show ?thesis by simp
qed

theorem two_setups_keep_both_loaded_witness:
  "setup_success (fst (setupModel (download fair_env) fair_env ''gpt2-small''
                         (fresh_world two_models))) \<and>
   setup_success (fst (setupModel (download fair_env) fair_env ''distilgpt2'' after_first)) \<and>
   st_model (getModelStatus after_second) = Some ''distilgpt2'' \<and>
   st_ready (getModelStatus after_second) \<and>
   map_has ''distilgpt2'' (loadedModels after_second) \<and>
   map_has ''gpt2-small'' (loadedModels after_second) \<and>
   UnloadModel ''gpt2-small'' \<notin> set (calls after_second)"
proof -
  let ?A = "setupModel (download fair_env) fair_env ''gpt2-small'' (fresh_world two_models)"
  let ?B = "setupModel (download fair_env) fair_env ''distilgpt2'' after_first"
  have a: "?A = (fst ?A, fst (snd ?A), after_first)"
    by (simp add: after_first_def)
  have b: "?B = (fst ?B, fst (snd ?B), after_second)"
    by (simp add: after_second_def)
  have sa: "setup_success (fst ?A)"
    by (simp add: first_setup setup_ok_def)
  have sb: "setup_success (fst ?B)"
    by (simp add: second_setup setup_ok_def)
  have ma: "fst (getModel fair_env ''gpt2-small'' (fresh_world two_models)) =
              Some (newModel gpt2_small)"
    "name (info (newModel gpt2_small)) = ''gpt2-small''"
    "status (newModel gpt2_small) = NOT_DOWNLOADED \<or> status (newModel gpt2_small) = DOWNLOADED \<or>
     status (newModel gpt2_small) = LOADED \<and>
     map_has ''gpt2-small'' (loadedModels (fresh_world two_models))"
    by (simp_all add: getModel_def getKnownModel_def saveModel_def saveRegistry_def
        example_defs newModel_def Let_def)
  have mb: "fst (getModel fair_env ''distilgpt2'' after_first) = Some (newModel distilgpt2)"
    "name (info (newModel distilgpt2)) = ''distilgpt2''"
    "status (newModel distilgpt2) = NOT_DOWNLOADED \<or> status (newModel distilgpt2) = DOWNLOADED \<or>
     status (newModel distilgpt2) = LOADED \<and> map_has ''distilgpt2'' (loadedModels after_first)"
    by (simp_all add: after_first_eq getModel_def getKnownModel_def saveModel_def
        saveRegistry_def example_defs newModel_def Let_def)
  from two_setups_keep_both_loaded [OF a sa ma b sb mb, of "''gpt2-small''"] sa sb
  show ?thesis by (simp add: example_defs)
qed

text \<open>
  Against C4 as stated: after \<^verbatim>\<open>setupModel("gpt2-small")\<close> and then
  \<^verbatim>\<open>setupModel("distilgpt2")\<close> have both succeeded, the loader answers
  \<^verbatim>\<open>isModelLoaded("gpt2-small")\<close> with true, and the calls made to the collaborators are
  two downloads and two loads: no \<^verbatim>\<open>unloadModel\<close>.
\<close>

theorem first_model_stays_loaded_counterexample:
  "setup_success (fst (setupModel (download fair_env) fair_env ''gpt2-small''
                         (fresh_world two_models))) \<and>
   setup_success (fst (setupModel (download fair_env) fair_env ''distilgpt2'' after_first)) \<and>
   st_model (getModelStatus after_second) = Some ''distilgpt2'' \<and>
   fst (isModelLoaded ''gpt2-small'' after_second) \<and>
   calls after_second = [Download ''gpt2-small'', LoadModel ''gpt2-small'',
                         Download ''distilgpt2'', LoadModel ''distilgpt2'']"
  by (simp add: first_setup second_setup after_second_eq setup_ok_def getModelStatus_def
      mark_defs newModel_def distilgpt2_def map_has_def)

section \<open>Progress reports of one setupModel\<close>





















section \<open>generateText\<close>

text \<open>
  C6. With no current model, or a current model that is not \<open>LOADED\<close>,
  \<^verbatim>\<open>generateText\<close> returns the failure "No model loaded" and changes nothing: no call
  reaches the downloader or the loader. Otherwise it makes exactly one call, the
  loader's \<^verbatim>\<open>generate\<close>: an error thrown there comes back as a failed result carrying
  its message, a response comes back as a successful result carrying it.
\<close>

theorem generateText_contract:
  "((currentModel w = None \<or> (\<exists>m. currentModel w = Some m \<and> status m \<noteq> LOADED)) \<longrightarrow>
      generateText env request w =
        (\<lparr>gen_success = False, gen_response = None, gen_error = Some ''No model loaded''\<rparr>, w)) \<and>
   ((\<exists>m. currentModel w = Some m \<and> status m = LOADED) \<longrightarrow>
      snd (generateText env request w) = w\<lparr>calls := calls w @ [Generate]\<rparr> \<and>
      (\<forall>e. fst (generate env request w) = Inl e \<longrightarrow>
         fst (generateText env request w) =
           \<lparr>gen_success = False, gen_response = None, gen_error = Some e\<rparr>) \<and>
      (\<forall>response. fst (generate env request w) = Inr response \<longrightarrow>
         fst (generateText env request w) =
           \<lparr>gen_success = True, gen_response = Some response, gen_error = None\<rparr>))"
  by (auto simp add: generateText_def isReady_def case_prod_beta record_call_def
      split: sum.splits)

theorem generateText_contract_witness:
  "currentModel (fresh_world two_models) = None \<and>
   generateText fair_env hello_request (fresh_world two_models) =
     (\<lparr>gen_success = False, gen_response = None, gen_error = Some ''No model loaded''\<rparr>,
      fresh_world two_models) \<and>
   currentModel after_first = Some (markLoaded 1000 (newModel gpt2_small)) \<and>
   status (markLoaded 1000 (newModel gpt2_small)) = LOADED \<and>
   calls (snd (generateText fair_env hello_request after_first)) =
     [Download ''gpt2-small'', LoadModel ''gpt2-small'', Generate] \<and>
   gen_success (fst (generateText fair_env hello_request after_first)) \<and>
   gen_success (fst (generateText
      (fair_env\<lparr>run_pipeline := (\<lambda>pipe prompt options. PipelineThrows (Some ''out of memory''))\<rparr>)
      hello_request after_first)) = False \<and>
   gen_error (fst (generateText
      (fair_env\<lparr>run_pipeline := (\<lambda>pipe prompt options. PipelineThrows (Some ''out of memory''))\<rparr>)
      hello_request after_first)) = Some ''Generation failed: out of memory''"
proof -
  let ?bad = "fair_env\<lparr>run_pipeline :=
                (\<lambda>pipe prompt options. PipelineThrows (Some ''out of memory''))\<rparr>"
  have none: "currentModel (fresh_world two_models) = None"
    by (simp add: fresh_world_def)
  have cur: "currentModel after_first = Some (markLoaded 1000 (newModel gpt2_small))"
    "status (markLoaded 1000 (newModel gpt2_small)) = LOADED"
    by (simp_all add: after_first_eq mark_defs)
  have good: "fst (generate fair_env hello_request after_first) =
     Inr \<lparr>r_text = ''Hello, world! and so on'', tokensUsed = 5, processingTimeMs = 5,
          r_model = ''gpt2-small'', timestamp = 1005\<rparr>"
    by (simp add: generate_def after_first_eq fair_env_def hello_request_def record_call_def
        split_length_def Let_def)
  have bad: "fst (generate ?bad hello_request after_first) =
     Inl ''Generation failed: out of memory''"
    by (simp add: generate_def after_first_eq fair_env_def hello_request_def record_call_def
        Let_def)
  from generateText_contract [of "fresh_world two_models" fair_env hello_request]
    generateText_contract [of after_first fair_env hello_request]
    generateText_contract [of after_first ?bad hello_request]
    none cur good bad
  show ?thesis by (simp add: after_first_eq)
qed

text \<open>
  C10. Let the current model be \<open>LOADED\<close> and the loader's map have the first entry
  \<open>(n, pipe)\<close>. Then \<^verbatim>\<open>generateText\<close> makes one call of the loader's \<^verbatim>\<open>generate\<close>, and
  the request is served by that first entry, whatever the current model is: the
  pipeline that runs is \<open>pipe\<close>, on the request's prompt and options; when it returns
  a text the result is a success whose response carries that text and the name \<open>n\<close>,
  and when it throws the result is a failure with its message. A \<^verbatim>\<open>setupModel\<close> of
  any model leaves that entry first. So the model named in a response can differ
  from the one \<^verbatim>\<open>getModelStatus()\<close> names: in the closed example below the loader
  holds two models, the response is produced by the pipeline of "gpt2" and names
  "gpt2-small", and \<^verbatim>\<open>getModelStatus()\<close> names "distilgpt2".
\<close>

theorem generateText_served_by_first_loaded:
  assumes "currentModel w = Some m" and "status m = LOADED"
    and "loadedModels w = (n, pipe) # others"
    and "generateText env request w = (r, w')"
  shows "(\<forall>t. run_pipeline env pipe (prompt request)
                \<lparr>max_new_tokens = or_default (maxTokens request) 100,
                 o_temperature = or_default (temperature request) 0.7,
                 top_p = or_default (topP request) 0.9,
                 do_sample = (doSample request \<noteq> Some False),
                 repetition_penalty = or_default (repetitionPenalty request) 1.1\<rparr>
              = PipelineText t \<longrightarrow>
              r = \<lparr>gen_success = True,
                   gen_response = Some \<lparr>r_text = t, tokensUsed = split_length t,
                                        processingTimeMs = elapsed env, r_model = n,
                                        timestamp = clock env + elapsed env\<rparr>,
                   gen_error = None\<rparr>) \<and>
         (\<forall>e. run_pipeline env pipe (prompt request)
                \<lparr>max_new_tokens = or_default (maxTokens request) 100,
                 o_temperature = or_default (temperature request) 0.7,
                 top_p = or_default (topP request) 0.9,
                 do_sample = (doSample request \<noteq> Some False),
                 repetition_penalty = or_default (repetitionPenalty request) 1.1\<rparr>
              = PipelineThrows e \<longrightarrow>
              r = \<lparr>gen_success = False, gen_response = None,
                   gen_error = Some (''Generation failed: '' @
                                     (case e of Some msg \<Rightarrow> msg | None \<Rightarrow> ''Unknown error''))\<rparr>) \<and>
         (gen_success r \<longrightarrow>
            (\<exists>response. gen_response r = Some response \<and> r_model response = n \<and>
               run_pipeline env pipe (prompt request)
                 \<lparr>max_new_tokens = or_default (maxTokens request) 100,
                  o_temperature = or_default (temperature request) 0.7,
                  top_p = or_default (topP request) 0.9,
                  do_sample = (doSample request \<noteq> Some False),
                  repetition_penalty = or_default (repetitionPenalty request) 1.1\<rparr>
               = PipelineText (r_text response))) \<and>
         w' = w\<lparr>calls := calls w @ [Generate]\<rparr> \<and>
         fst (hd (loadedModels (snd (snd (setupModel dl env' b w))))) = n"
proof -
  let ?run = "run_pipeline env pipe (prompt request)
                \<lparr>max_new_tokens = or_default (maxTokens request) 100,
                 o_temperature = or_default (temperature request) 0.7,
                 top_p = or_default (topP request) 0.9,
                 do_sample = (doSample request \<noteq> Some False),
                 repetition_penalty = or_default (repetitionPenalty request) 1.1\<rparr>"
  have g: "fst (generate env request w) =
     (case ?run of
        PipelineText t \<Rightarrow>
          Inr \<lparr>r_text = t, tokensUsed = split_length t, processingTimeMs = elapsed env,
               r_model = n, timestamp = clock env + elapsed env\<rparr>
      | PipelineThrows e \<Rightarrow>
          Inl (''Generation failed: '' @
               (case e of Some msg \<Rightarrow> msg | None \<Rightarrow> ''Unknown error'')))"
    using assms(3)
    by (simp add: generate_def Let_def record_call_def split: PipelineOutcome.splits)
  have r: "r = fst (generateText env request w)" and w': "w' = snd (generateText env request w)"
    using assms(4) by simp_all
  have served: "r = (case ?run of
        PipelineText t \<Rightarrow>
          \<lparr>gen_success = True,
           gen_response = Some \<lparr>r_text = t, tokensUsed = split_length t,
                                processingTimeMs = elapsed env, r_model = n,
                                timestamp = clock env + elapsed env\<rparr>,
           gen_error = None\<rparr>
      | PipelineThrows e \<Rightarrow>
          \<lparr>gen_success = False, gen_response = None,
           gen_error = Some (''Generation failed: '' @
                             (case e of Some msg \<Rightarrow> msg | None \<Rightarrow> ''Unknown error''))\<rparr>)"
    unfolding r using assms(1,2) g
    by (simp add: generateText_def isReady_def case_prod_beta
        split: sum.splits PipelineOutcome.splits)
  have world: "w' = w\<lparr>calls := calls w @ [Generate]\<rparr>"
    unfolding w' using assms(1,2)
    by (simp add: generateText_def isReady_def case_prod_beta record_call_def
        split: sum.splits)
  have first: "fst (hd (loadedModels (snd (snd (setupModel dl env' b w))))) = n"
    using setupModel_keeps_first [of w dl env' b] assms(3) by simp
  from served world first show ?thesis
    by (cases ?run) simp_all
qed

theorem generateText_served_by_first_loaded_witness:
  "currentModel after_second = Some (markLoaded 1000 (newModel distilgpt2)) \<and>
   status (markLoaded 1000 (newModel distilgpt2)) = LOADED \<and>
   getLoadedModels after_second = [''gpt2-small'', ''distilgpt2''] \<and>
   gen_success (fst (generateText
      (fair_env\<lparr>run_pipeline := (\<lambda>pipe prompt options.
                   PipelineText (pipe_model pipe @ '' says '' @ prompt))\<rparr>)
      hello_request after_second)) \<and>
   map_option r_model (gen_response (fst (generateText
      (fair_env\<lparr>run_pipeline := (\<lambda>pipe prompt options.
                   PipelineText (pipe_model pipe @ '' says '' @ prompt))\<rparr>)
      hello_request after_second))) = Some ''gpt2-small'' \<and>
   map_option r_text (gen_response (fst (generateText
      (fair_env\<lparr>run_pipeline := (\<lambda>pipe prompt options.
                   PipelineText (pipe_model pipe @ '' says '' @ prompt))\<rparr>)
      hello_request after_second))) = Some ''gpt2 says Hello, world!'' \<and>
   st_model (getModelStatus after_second) = Some ''distilgpt2''"
proof -
  let ?env = "fair_env\<lparr>run_pipeline := (\<lambda>pipe prompt options.
                PipelineText (pipe_model pipe @ '' says '' @ prompt))\<rparr>"
  let ?G = "generateText ?env hello_request after_second"
  have cur: "currentModel after_second = Some (markLoaded 1000 (newModel distilgpt2))"
    "status (markLoaded 1000 (newModel distilgpt2)) = LOADED"
    by (simp_all add: after_second_eq mark_defs)
  have first: "loadedModels after_second =
      (''gpt2-small'', \<lparr>pipe_task = TextGeneration, pipe_model = ''gpt2'',
                        pipe_cache_dir = ''models/gpt2-small''\<rparr>) #
      [(''distilgpt2'', \<lparr>pipe_task = TextGeneration, pipe_model = ''distilgpt2'',
                         pipe_cache_dir = ''models/distilgpt2''\<rparr>)]"
    by (simp add: after_second_eq)
  have run: "?G = (fst ?G, snd ?G)"
    by simp
  from generateText_served_by_first_loaded [OF cur first run] cur first
  show ?thesis
    by (simp add: getModelStatus_def getLoadedModels_def mark_defs newModel_def
        distilgpt2_def hello_request_def)
qed

end
